theory Spec2Isabelle
  imports Complex_Main
begin

section \<open>JavaScript values used by the NIP-46 session code\<close>

text \<open>
  A value that a \<^verbatim>\<open>throw\<close> can carry.  \<^verbatim>\<open>isQuotaExceededError\<close> only looks at whether
  the value is a \<^verbatim>\<open>DOMException\<close> and, if so, at its \<^verbatim>\<open>name\<close> and \<^verbatim>\<open>code\<close>.
\<close>

datatype thrown = DOMException (exn_name: string) (exn_code: int) | OtherError string

text \<open>
  The state a promise ends in.  An \<^verbatim>\<open>async\<close> function never throws to its caller: it
  returns a promise that resolves, rejects, or (when it awaits something that never
  settles) stays pending for ever.
\<close>

datatype 'a promise = Resolved 'a | Rejected thrown | NeverSettles

definition await :: "'a promise \<Rightarrow> ('a \<Rightarrow> 'b promise) \<Rightarrow> 'b promise" where
  "await p k = (case p of Resolved v \<Rightarrow> k v | Rejected e \<Rightarrow> Rejected e | NeverSettles \<Rightarrow> NeverSettles)"

definition tryCatch :: "'a promise \<Rightarrow> (thrown \<Rightarrow> 'a promise) \<Rightarrow> 'a promise" where
  "tryCatch body handler =
     (case body of Resolved v \<Rightarrow> Resolved v | Rejected e \<Rightarrow> handler e | NeverSettles \<Rightarrow> NeverSettles)"

text \<open>
  Truthiness of an optional string (\<^verbatim>\<open>string | null | undefined\<close>): \<^verbatim>\<open>null\<close>,
  \<^verbatim>\<open>undefined\<close> and the empty string are falsy.
\<close>

definition truthyStr :: "string option \<Rightarrow> bool" where
  "truthyStr v = (case v of None \<Rightarrow> False | Some s \<Rightarrow> s \<noteq> [])"

text \<open>What \<^verbatim>\<open>JSON.parse\<close> can return.\<close>

datatype json =
    JNull
  | JBool bool
  | JNum real
  | JStr string
  | JArr "json list"
  | JObj "(string \<times> json) list"

fun typeof :: "json \<Rightarrow> string" where
  "typeof JNull = ''object''"
| "typeof (JBool b) = ''boolean''"
| "typeof (JNum n) = ''number''"
| "typeof (JStr s) = ''string''"
| "typeof (JArr xs) = ''object''"
| "typeof (JObj kvs) = ''object''"

fun truthy :: "json \<Rightarrow> bool" where
  "truthy JNull = False"
| "truthy (JBool b) = b"
| "truthy (JNum n) = (n \<noteq> 0)"
| "truthy (JStr s) = (s \<noteq> [])"
| "truthy (JArr xs) = True"
| "truthy (JObj kvs) = True"

text \<open>
  Property access \<^verbatim>\<open>value.key\<close> for a non-index key; \<^verbatim>\<open>None\<close> is \<^verbatim>\<open>undefined\<close>.
  Only called on values that passed the \<^verbatim>\<open>typeof parsed === "object"\<close> test.
\<close>

fun getProp :: "json \<Rightarrow> string \<Rightarrow> json option" where
  "getProp (JObj kvs) key = map_of kvs key"
| "getProp other key = None"

fun isArray :: "json option \<Rightarrow> bool" where
  "isArray (Some (JArr xs)) = True"
| "isArray other = False"

section \<open>Sessions and snapshots\<close>

text \<open>
  Modelled from the spec: the declaration of the status of a session (\<^verbatim>\<open>session.ts\<close>) is
  not among the sources.  It is one of \<^verbatim>\<open>pending\<close>, \<^verbatim>\<open>active\<close> and \<^verbatim>\<open>revoked\<close>.
\<close>

datatype SessionStatus = Pending | Active | Revoked

text \<open>
  Modelled from the spec: the declaration of the session record (\<^verbatim>\<open>session.ts\<close>) is not
  among the sources.  The fields are the ones the provider code reads, under the names it
  reads them by (\<^verbatim>\<open>id\<close> is \<open>session_id\<close> here), with the types the spec's data model gives
  them: optional strings for the two public keys and the last error, an optional timestamp
  for \<^verbatim>\<open>lastSeenAt\<close>, and millisecond timestamps as integers.  The key material of a session
  is never read by the code modelled here and is left out.
\<close>

record RemoteSignerSession =
  session_id :: string
  status :: SessionStatus
  remoteSignerPubkey :: "string option"
  userPubkey :: "string option"
  lastError :: "string option"
  lastSeenAt :: "int option"
  createdAt :: int
  updatedAt :: int

text \<open>The two fields of a snapshot, as \<^verbatim>\<open>defaultSnapshot\<close> in the provider shows them.\<close>

record SessionSnapshot =
  sessions :: "RemoteSignerSession list"
  activeSessionId :: "string option"

section \<open>Storage adapters (storage.ts)\<close>

definition STORAGE_KEY :: string where
  "STORAGE_KEY = ''bloom.nip46.sessions.v1''"

fun isQuotaExceededError :: "thrown \<Rightarrow> bool" where
  "isQuotaExceededError (DOMException name code) =
     (name = ''QuotaExceededError'' \<or> code = 22 \<or> name = ''NS_ERROR_DOM_QUOTA_REACHED'')"
| "isQuotaExceededError (OtherError msg) = False"

text \<open>
  \<^verbatim>\<open>cloneSnapshot\<close> is \<^verbatim>\<open>structuredClone\<close>, or a JSON round trip where that is missing:
  a deep copy of plain data, built field by field.  (A field that is \<^verbatim>\<open>undefined\<close> is
  dropped by the JSON round trip and reads as \<^verbatim>\<open>undefined\<close> again; both are \<open>None\<close>
  here.)
\<close>

definition cloneSession :: "RemoteSignerSession \<Rightarrow> RemoteSignerSession" where
  "cloneSession session =
     \<lparr>session_id = session_id session, status = status session,
      remoteSignerPubkey = remoteSignerPubkey session, userPubkey = userPubkey session,
      lastError = lastError session, lastSeenAt = lastSeenAt session,
      createdAt = createdAt session, updatedAt = updatedAt session\<rparr>"

definition cloneSnapshot :: "SessionSnapshot \<Rightarrow> SessionSnapshot" where
  "cloneSnapshot snapshot =
     \<lparr>sessions = map cloneSession (sessions snapshot),
      activeSessionId = activeSessionId snapshot\<rparr>"

subsection \<open>LocalStorageAdapter\<close>

text \<open>
  What one call of the adapter meets in the browser: whether \<^verbatim>\<open>window\<close> exists, the two
  readings of \<^verbatim>\<open>Date.now()\<close> a \<^verbatim>\<open>save\<close> can take (at the retry test and in the catch
  handler), \<^verbatim>\<open>JSON.stringify\<close> (which returns a string on the plain data of a snapshot)
  and \<^verbatim>\<open>JSON.parse\<close> (which returns a value or throws), and what \<^verbatim>\<open>localStorage\<close> does:
  \<^verbatim>\<open>setItem\<close> stores the value (\<open>None\<close>) or throws, \<^verbatim>\<open>getItem\<close> returns the stored
  string, \<^verbatim>\<open>null\<close>, or throws.
\<close>

record browser =
  hasWindow :: bool
  dateNow :: int
  dateNowCatch :: int
  stringify :: "SessionSnapshot \<Rightarrow> string"
  setItemThrows :: "thrown option"
  getItem :: "string \<Rightarrow> thrown + string option"
  parse :: "string \<Rightarrow> thrown + json"

record LocalStorageAdapter =
  blocked :: bool
  lastBlockedTime :: int

definition RETRY_INTERVAL_MS :: int where
  "RETRY_INTERVAL_MS = 60000"

definition newLocalStorageAdapter :: LocalStorageAdapter where
  "newLocalStorageAdapter = \<lparr>blocked = False, lastBlockedTime = 0\<rparr>"

text \<open>
  The result of \<^verbatim>\<open>load\<close> is the parsed payload itself (the code casts it to a snapshot
  without looking further than \<^verbatim>\<open>sessions\<close>).  The test \<^verbatim>\<open>!raw\<close> holds for \<^verbatim>\<open>null\<close>
  and for the empty string.
\<close>

definition LocalStorageAdapter_load :: "browser \<Rightarrow> json option promise" where
  "LocalStorageAdapter_load env =
     (if \<not> hasWindow env then Resolved None
      else
        (case getItem env STORAGE_KEY of
           Inl error \<Rightarrow> Resolved None
         | Inr None \<Rightarrow> Resolved None
         | Inr (Some raw) \<Rightarrow>
             (if raw = [] then Resolved None
              else
                (case parse env raw of
                   Inl error \<Rightarrow> Resolved None
                 | Inr parsed \<Rightarrow>
                     (if \<not> truthy parsed then Resolved None
                      else if typeof parsed \<noteq> ''object'' then Resolved None
                      else if \<not> isArray (getProp parsed ''sessions'') then Resolved None
                      else Resolved (Some parsed))))))"

text \<open>
  \<^verbatim>\<open>save\<close> returns the adapter's new fields, the \<^verbatim>\<open>setItem\<close> calls it made (key and
  value, also when the call threw), and how its promise settles.
\<close>

record LocalSave =
  adapter :: LocalStorageAdapter
  setItemCalls :: "(string \<times> string) list"
  settled :: "unit promise"

definition LocalStorageAdapter_save ::
  "browser \<Rightarrow> SessionSnapshot \<Rightarrow> LocalStorageAdapter \<Rightarrow> LocalSave" where
  "LocalStorageAdapter_save env snapshot this =
     (if \<not> hasWindow env then \<lparr>adapter = this, setItemCalls = [], settled = Resolved ()\<rparr>
      else
        let this1 =
          (if blocked this \<and> dateNow env - lastBlockedTime this > RETRY_INTERVAL_MS
           then this\<lparr>blocked := False\<rparr> else this)
        in
          if blocked this1 then \<lparr>adapter = this1, setItemCalls = [], settled = Resolved ()\<rparr>
          else
            (case setItemThrows env of
               None \<Rightarrow>
                 \<lparr>adapter = (if lastBlockedTime this1 > 0 then this1\<lparr>lastBlockedTime := 0\<rparr> else this1),
                  setItemCalls = [(STORAGE_KEY, stringify env snapshot)],
                  settled = Resolved ()\<rparr>
             | Some error \<Rightarrow>
                 if isQuotaExceededError error
                 then \<lparr>adapter = this1\<lparr>blocked := True, lastBlockedTime := dateNowCatch env\<rparr>,
                       setItemCalls = [(STORAGE_KEY, stringify env snapshot)],
                       settled = Resolved ()\<rparr>
                 else \<lparr>adapter = this1,
                       setItemCalls = [(STORAGE_KEY, stringify env snapshot)],
                       settled = Resolved ()\<rparr>))"

text \<open>A run of \<^verbatim>\<open>save\<close> calls, one after the other, on the same adapter.\<close>

fun saveAll :: "LocalStorageAdapter \<Rightarrow> (browser \<times> SessionSnapshot) list \<Rightarrow> LocalSave list" where
  "saveAll this [] = []"
| "saveAll this ((env, snapshot) # rest) =
     (let r = LocalStorageAdapter_save env snapshot this in r # saveAll (adapter r) rest)"

subsection \<open>MemoryStorageAdapter\<close>

text \<open>The adapter's only field is \<^verbatim>\<open>snapshot\<close>, \<^verbatim>\<open>null\<close> at first.\<close>

type_synonym MemoryStorageAdapter = "SessionSnapshot option"

definition newMemoryStorageAdapter :: MemoryStorageAdapter where
  "newMemoryStorageAdapter = None"

definition MemoryStorageAdapter_load :: "MemoryStorageAdapter \<Rightarrow> SessionSnapshot option promise" where
  "MemoryStorageAdapter_load this =
     Resolved (case this of None \<Rightarrow> None | Some snapshot \<Rightarrow> Some (cloneSnapshot snapshot))"

definition MemoryStorageAdapter_save ::
  "SessionSnapshot \<Rightarrow> MemoryStorageAdapter \<Rightarrow> MemoryStorageAdapter \<times> unit promise" where
  "MemoryStorageAdapter_save snapshot this = (Some (cloneSnapshot snapshot), Resolved ())"

subsection \<open>IndexedDbStorageAdapter\<close>

record SnapshotRecord =
  record_key :: string
  record_snapshot :: SessionSnapshot
  record_updatedAt :: int

text \<open>
  What one call meets in IndexedDB: whether \<^verbatim>\<open>indexedDB\<close> exists, how the adapter's
  \<^verbatim>\<open>initialized\<close> promise and the promise of \<^verbatim>\<open>openIndexedDb()\<close> settle, whether
  \<^verbatim>\<open>db.transaction\<close> throws, how the \<^verbatim>\<open>get\<close> and \<^verbatim>\<open>put\<close> requests settle, and how the
  transaction ends.  An open request that stays blocked never settles.
\<close>

record idb =
  hasIndexedDB :: bool
  initialized :: "unit promise"
  opened :: "unit promise"
  transactionThrows :: "thrown option"
  getRequest :: "SnapshotRecord option promise"
  putRequest :: "unit promise"
  txDone :: "unit promise"

definition openTransaction :: "idb \<Rightarrow> unit promise" where
  "openTransaction env = (case transactionThrows env of None \<Rightarrow> Resolved () | Some e \<Rightarrow> Rejected e)"

definition IndexedDb_load_body :: "idb \<Rightarrow> SessionSnapshot option promise" where
  "IndexedDb_load_body env =
     await (initialized env) (\<lambda>_.
     await (opened env) (\<lambda>_.
     await (openTransaction env) (\<lambda>_.
     await (getRequest env) (\<lambda>record.
     await (txDone env) (\<lambda>_.
       (case record of
          None \<Rightarrow> Resolved None
        | Some r \<Rightarrow> Resolved (Some (cloneSnapshot (record_snapshot r)))))))))"

definition IndexedDbStorageAdapter_load :: "idb \<Rightarrow> SessionSnapshot option promise" where
  "IndexedDbStorageAdapter_load env =
     (if \<not> hasIndexedDB env then Resolved None
      else tryCatch (IndexedDb_load_body env) (\<lambda>error. Resolved None))"

text \<open>
  \<^verbatim>\<open>save\<close> hands a clone of the snapshot to \<^verbatim>\<open>store.put\<close>; how the call settles depends on
  the database alone.
\<close>

definition IndexedDb_save_body :: "idb \<Rightarrow> SessionSnapshot \<Rightarrow> unit promise" where
  "IndexedDb_save_body env snapshot =
     await (initialized env) (\<lambda>_.
     await (opened env) (\<lambda>_.
     await (openTransaction env) (\<lambda>_.
     await (putRequest env) (\<lambda>_.
     await (txDone env) (\<lambda>_. Resolved ())))))"

definition IndexedDbStorageAdapter_save :: "idb \<Rightarrow> SessionSnapshot \<Rightarrow> unit promise" where
  "IndexedDbStorageAdapter_save env snapshot =
     (if \<not> hasIndexedDB env then Resolved ()
      else tryCatch (IndexedDb_save_body env snapshot) (\<lambda>error. Resolved ()))"

section \<open>The transport before any relay is configured (Nip46Provider, missingTransport)\<close>

text \<open>
  A call either returns a value or throws.  The declaration of \<^verbatim>\<open>TransportConfig\<close> is not
  among the sources: its two fields are those of the \<^verbatim>\<open>missingTransport\<close> literal, which
  ignores its arguments, so their types stay type variables.  The handle \<^verbatim>\<open>subscribe\<close>
  returns is a procedure: it takes the state of the listeners it could change and returns the
  state it leaves.
\<close>

datatype 'a call = Returns 'a | Throws thrown

record ('e, 'f, 'w) TransportConfig =
  publish :: "'e \<Rightarrow> unit promise call"
  subscribe :: "'f \<Rightarrow> ('w \<Rightarrow> 'w call) call"

definition missingTransport :: "('e, 'f, 'w) TransportConfig" where
  "missingTransport =
     \<lparr>publish = (\<lambda>args. Returns (Rejected (OtherError ''NIP-46 transport is not configured''))),
      subscribe = (\<lambda>args. Returns (\<lambda>listeners. Returns listeners))\<rparr>"

section \<open>The effects of Nip46Provider\<close>

definition RECONNECT_COOLDOWN_MS :: int where
  "RECONNECT_COOLDOWN_MS = 60000"

text \<open>
  The refs the reconnection and adoption effects share, and the values whose presence
  gates the effects.
\<close>

record Refs =
  activeSessionRef :: "string option"
  reconnectTrackerRef :: "string set"
  reconnectCooldownRef :: "string \<rightharpoonup> int"

record Deps =
  hasModule :: bool
  hasNdk :: bool
  ready :: bool
  transportReady :: bool
  hasService :: bool
  hasSessionManager :: bool

definition newRefs :: Refs where
  "newRefs = \<lparr>activeSessionRef = None, reconnectTrackerRef = {}, reconnectCooldownRef = Map.empty\<rparr>"

subsection \<open>Reconnection effect\<close>

definition shouldReconnect :: "int \<Rightarrow> string option \<Rightarrow> RemoteSignerSession \<Rightarrow> bool" where
  "shouldReconnect now activeAdoptedSessionId session =
     (activeAdoptedSessionId = Some (session_id session) \<or>
      (case lastSeenAt session of
         None \<Rightarrow> False
       | Some seen \<Rightarrow> now - seen \<le> RECONNECT_COOLDOWN_MS))"

text \<open>
  The test \<^verbatim>\<open>lastAttempt && now - lastAttempt < RECONNECT_COOLDOWN_MS\<close>: a missing entry
  and the number 0 are falsy.
\<close>

definition coolingDown :: "int \<Rightarrow> int option \<Rightarrow> bool" where
  "coolingDown now lastAttempt =
     (case lastAttempt of
        None \<Rightarrow> False
      | Some t \<Rightarrow> t \<noteq> 0 \<and> now - t < RECONNECT_COOLDOWN_MS)"

text \<open>
  One turn of the \<^verbatim>\<open>forEach\<close>: the refs and the \<^verbatim>\<open>connectSession\<close> calls issued so far,
  before and after the session is looked at.  \<^verbatim>\<open>connectSession\<close> is asynchronous: the call
  returns a promise, whose handlers run later.
\<close>

definition reconnectSession ::
  "int \<Rightarrow> string option \<Rightarrow> Refs \<times> string list \<Rightarrow> RemoteSignerSession \<Rightarrow> Refs \<times> string list" where
  "reconnectSession now activeAdoptedSessionId acc session =
     (if status session \<noteq> Active then acc
      else if \<not> truthyStr (remoteSignerPubkey session) then acc
      else if truthyStr (lastError session) then acc
      else if \<not> shouldReconnect now activeAdoptedSessionId session then acc
      else if session_id session \<in> reconnectTrackerRef (fst acc) then acc
      else if coolingDown now (reconnectCooldownRef (fst acc) (session_id session)) then acc
      else
        ((fst acc)\<lparr>reconnectTrackerRef := insert (session_id session) (reconnectTrackerRef (fst acc)),
                   reconnectCooldownRef := (reconnectCooldownRef (fst acc))(session_id session \<mapsto> now)\<rparr>,
         snd acc @ [session_id session]))"

definition reconnectEffect ::
  "Deps \<Rightarrow> int \<Rightarrow> SessionSnapshot \<Rightarrow> Refs \<Rightarrow> Refs \<times> string list" where
  "reconnectEffect deps now snapshot refs =
     (if \<not> (ready deps \<and> transportReady deps \<and> hasService deps \<and> hasSessionManager deps \<and> hasNdk deps)
      then (refs, [])
      else foldl (reconnectSession now (activeSessionRef refs)) (refs, []) (sessions snapshot))"

text \<open>
  The promise of \<^verbatim>\<open>connectSession\<close> settles: on rejection the \<^verbatim>\<open>catch\<close> handler takes
  the session out of the tracker, and the \<^verbatim>\<open>finally\<close> handler does so in either case.
  Neither touches the cooldown map.
\<close>

definition connectSessionSettled :: "string \<Rightarrow> bool \<Rightarrow> Refs \<Rightarrow> Refs" where
  "connectSessionSettled sid succeeded refs =
     (let afterCatch =
            (if succeeded then refs
             else refs\<lparr>reconnectTrackerRef := reconnectTrackerRef refs - {sid}\<rparr>)
      in afterCatch\<lparr>reconnectTrackerRef := reconnectTrackerRef afterCatch - {sid}\<rparr>)"

subsection \<open>Adoption effect\<close>

definition qualifies :: "RemoteSignerSession \<Rightarrow> bool" where
  "qualifies session =
     (status session = Active \<and> truthyStr (userPubkey session) \<and> \<not> truthyStr (lastError session))"

definition adoptionCandidate :: "SessionSnapshot \<Rightarrow> RemoteSignerSession option" where
  "adoptionCandidate snapshot = find qualifies (sessions snapshot)"

text \<open>
  The calls of \<^verbatim>\<open>adoptSigner\<close>: with \<^verbatim>\<open>null\<close>, or with a new delegated signer bound to a
  session id.
\<close>

datatype adoptCall = AdoptNull | AdoptSigner string

definition adoptionEffect :: "Deps \<Rightarrow> SessionSnapshot \<Rightarrow> Refs \<Rightarrow> Refs \<times> adoptCall list" where
  "adoptionEffect deps snapshot refs =
     (if \<not> (hasModule deps \<and> hasNdk deps \<and> ready deps \<and> transportReady deps \<and> hasService deps
             \<and> hasSessionManager deps)
      then (refs, [])
      else
        (case adoptionCandidate snapshot of
           None \<Rightarrow>
             (if truthyStr (activeSessionRef refs)
              then (refs\<lparr>activeSessionRef := None\<rparr>, [AdoptNull])
              else (refs, []))
         | Some candidate \<Rightarrow>
             (if Some (session_id candidate) = activeSessionRef refs then (refs, [])
              else (refs\<lparr>activeSessionRef := Some (session_id candidate)\<rparr>,
                    [AdoptSigner (session_id candidate)]))))"

text \<open>The promise of \<^verbatim>\<open>adoptSigner(signer)\<close> rejects: the handler resets the ref.\<close>

definition adoptSignerRejected :: "Refs \<Rightarrow> Refs" where
  "adoptSignerRejected refs = refs\<lparr>activeSessionRef := None\<rparr>"

subsection \<open>Runs of the provider\<close>

text \<open>
  What can happen to the refs, in any order: either effect runs (React runs an effect when
  one of its dependencies changed), a \<^verbatim>\<open>connectSession\<close> promise settles, or an
  \<^verbatim>\<open>adoptSigner\<close> promise rejects.
\<close>

datatype event =
    ReconnectRun Deps int SessionSnapshot
  | AdoptionRun Deps SessionSnapshot
  | ConnectSettled string bool
  | AdoptRejected

fun step :: "Refs \<Rightarrow> event \<Rightarrow> Refs \<times> string list \<times> adoptCall list" where
  "step refs (ReconnectRun deps now snapshot) =
     (let r = reconnectEffect deps now snapshot refs in (fst r, snd r, []))"
| "step refs (AdoptionRun deps snapshot) =
     (let r = adoptionEffect deps snapshot refs in (fst r, [], snd r))"
| "step refs (ConnectSettled sid succeeded) = (connectSessionSettled sid succeeded refs, [], [])"
| "step refs AdoptRejected = (adoptSignerRejected refs, [], [])"

fun connectLog :: "Refs \<Rightarrow> event list \<Rightarrow> string list" where
  "connectLog refs [] = []"
| "connectLog refs (ev # evs) =
     (let r = step refs ev in fst (snd r) @ connectLog (fst r) evs)"

text \<open>An event that, if it is a run of the reconnection effect, happens less than the cooldown after \<open>t\<close>.\<close>

fun withinCooldown :: "int \<Rightarrow> event \<Rightarrow> bool" where
  "withinCooldown t (ReconnectRun deps now snapshot) = (now - t < RECONNECT_COOLDOWN_MS)"
| "withinCooldown t other = True"

subsection \<open>The application's signer (NdkContext, adoptSigner)\<close>








section \<open>Concrete inputs for the examples\<close>

definition sampleSession :: RemoteSignerSession where
  "sampleSession =
     \<lparr>session_id = ''s1'', status = Active, remoteSignerPubkey = Some ''remote1'',
      userPubkey = Some ''user1'', lastError = None, lastSeenAt = Some 1000,
      createdAt = 1, updatedAt = 1\<rparr>"

definition sampleSnapshot :: SessionSnapshot where
  "sampleSnapshot = \<lparr>sessions = [sampleSession], activeSessionId = None\<rparr>"

text \<open>A browser at time 1000 whose storage is empty and accepts every write.\<close>

definition sampleBrowser :: browser where
  "sampleBrowser =
     \<lparr>hasWindow = True, dateNow = 1000, dateNowCatch = 1000,
      stringify = (\<lambda>snapshot. ''{}''), setItemThrows = None,
      getItem = (\<lambda>k. Inr None), parse = (\<lambda>raw. Inl (OtherError ''SyntaxError''))\<rparr>"

definition quotaError :: thrown where
  "quotaError = DOMException ''QuotaExceededError'' 22"

text \<open>An IndexedDB in which every step succeeds and nothing is stored.\<close>

definition sampleIdb :: idb where
  "sampleIdb =
     \<lparr>hasIndexedDB = True, initialized = Resolved (), opened = Resolved (),
      transactionThrows = None, getRequest = Resolved None, putRequest = Resolved (),
      txDone = Resolved ()\<rparr>"




definition allReady :: Deps where
  "allReady =
     \<lparr>hasModule = True, hasNdk = True, ready = True, transportReady = True,
      hasService = True, hasSessionManager = True\<rparr>"

section \<open>Properties of the storage adapters\<close>

lemma cloneSession_id: "cloneSession session = session"
  by (simp add: cloneSession_def)

lemma cloneSnapshot_id: "cloneSnapshot s = s"
proof -
  have "map cloneSession (sessions s) = sessions s"
    by (rule map_idI) (rule cloneSession_id)
  then show ?thesis by (simp add: cloneSnapshot_def)
qed

subsection \<open>LocalStorageAdapter.save\<close>

lemma save_blocked_skips:
  assumes "blocked this" and "dateNow env - lastBlockedTime this \<le> RETRY_INTERVAL_MS"
  shows "LocalStorageAdapter_save env s this = \<lparr>adapter = this, setItemCalls = [], settled = Resolved ()\<rparr>"
  using assms by (simp add: LocalStorageAdapter_save_def)

lemma saveAll_blocked_skips:
  assumes "blocked this"
    and "list_all (\<lambda>(env, s). dateNow env - lastBlockedTime this \<le> RETRY_INTERVAL_MS) reqs"
  shows "saveAll this reqs = replicate (length reqs) \<lparr>adapter = this, setItemCalls = [], settled = Resolved ()\<rparr>"
  using assms
proof (induction reqs)
  case Nil
  then show ?case by simp
next
  case (Cons r reqs)
  obtain env s where r: "r = (env, s)" by (cases r)
  with Cons show ?case by (simp add: save_blocked_skips Let_def)
qed

lemma save_quota_blocks:
  assumes "setItemCalls (LocalStorageAdapter_save env s this) \<noteq> []"
    and "setItemThrows env = Some e" and "isQuotaExceededError e"
  shows "adapter (LocalStorageAdapter_save env s this) = \<lparr>blocked = True, lastBlockedTime = dateNowCatch env\<rparr>"
  using assms by (auto simp add: LocalStorageAdapter_save_def Let_def split: if_splits)

lemma save_retries_after_interval:
  assumes "hasWindow env" and "dateNow env - lastBlockedTime this > RETRY_INTERVAL_MS"
  shows "setItemCalls (LocalStorageAdapter_save env s this) = [(STORAGE_KEY, stringify env s)]"
  using assms by (auto simp add: LocalStorageAdapter_save_def Let_def split: option.splits)

lemma save_unblocked_writes:
  assumes "hasWindow env" and "\<not> blocked this"
  shows "setItemCalls (LocalStorageAdapter_save env s this) = [(STORAGE_KEY, stringify env s)]"
  using assms by (auto simp add: LocalStorageAdapter_save_def Let_def split: option.splits)

lemma save_settles: "settled (LocalStorageAdapter_save env s this) = Resolved ()"
  by (auto simp add: LocalStorageAdapter_save_def Let_def split: option.splits)

lemma save_blocked_cases:
  assumes "blocked (adapter (LocalStorageAdapter_save env s this))"
  shows "(blocked this \<and> setItemCalls (LocalStorageAdapter_save env s this) = [])
       \<or> (\<exists>e. setItemThrows env = Some e \<and> isQuotaExceededError e
               \<and> setItemCalls (LocalStorageAdapter_save env s this) \<noteq> [])"
  using assms by (auto simp add: LocalStorageAdapter_save_def Let_def split: option.splits if_splits)

lemma save_other_failure_unblocked:
  assumes "setItemCalls (LocalStorageAdapter_save env s this) \<noteq> []"
    and "setItemThrows env = Some e" and "\<not> isQuotaExceededError e"
  shows "\<not> blocked (adapter (LocalStorageAdapter_save env s this))"
  using assms by (auto simp add: LocalStorageAdapter_save_def Let_def split: option.splits if_splits)

lemma isQuotaExceededError_iff:
  "isQuotaExceededError e \<longleftrightarrow>
     (\<exists>name code. e = DOMException name code \<and>
        (name = ''QuotaExceededError'' \<or> code = 22 \<or> name = ''NS_ERROR_DOM_QUOTA_REACHED''))"
  by (cases e) auto

text \<open>
  C5 (amended).  A \<^verbatim>\<open>save\<close> of the localStorage adapter fails with a quota error: it called
  \<^verbatim>\<open>setItem\<close>, and \<^verbatim>\<open>setItem\<close> threw a value that \<^verbatim>\<open>isQuotaExceededError\<close> accepts.  The
  time of the failure is the \<^verbatim>\<open>Date.now()\<close> the catch handler reads.  Then every later
  \<^verbatim>\<open>save\<close> issued at most 60000 ms after the failure returns without calling \<^verbatim>\<open>setItem\<close>,
  resolves, and leaves the adapter as it was (so this holds for any run of such calls); and a
  \<^verbatim>\<open>save\<close> issued in a browser strictly more than 60000 ms after the failure calls
  \<^verbatim>\<open>setItem\<close> again.
\<close>

theorem localStorage_quota_cooldown:
  assumes "LocalStorageAdapter_save env0 s0 this0 = failed"
    and "setItemCalls failed \<noteq> []"
    and "setItemThrows env0 = Some e"
    and "isQuotaExceededError e"
  shows "(list_all (\<lambda>(env, s). dateNow env - dateNowCatch env0 \<le> 60000) reqs \<longrightarrow>
            saveAll (adapter failed) reqs =
              replicate (length reqs)
                \<lparr>adapter = adapter failed, setItemCalls = [], settled = Resolved ()\<rparr>)
       \<and> (hasWindow env \<and> dateNow env - dateNowCatch env0 > 60000 \<longrightarrow>
            setItemCalls (LocalStorageAdapter_save env s (adapter failed)) =
              [(STORAGE_KEY, stringify env s)])"
proof -
  have a: "adapter failed = \<lparr>blocked = True, lastBlockedTime = dateNowCatch env0\<rparr>"
    using assms save_quota_blocks[of env0 s0 this0 e] by simp
  have skip: "list_all (\<lambda>(env, s). dateNow env - dateNowCatch env0 \<le> 60000) reqs \<Longrightarrow>
      saveAll (adapter failed) reqs =
        replicate (length reqs) \<lparr>adapter = adapter failed, setItemCalls = [], settled = Resolved ()\<rparr>"
    using saveAll_blocked_skips[of "adapter failed" reqs] a
    by (simp add: RETRY_INTERVAL_MS_def)
  have retry: "hasWindow env \<Longrightarrow> dateNow env - dateNowCatch env0 > 60000 \<Longrightarrow>
      setItemCalls (LocalStorageAdapter_save env s (adapter failed)) = [(STORAGE_KEY, stringify env s)]"
    using save_retries_after_interval[of env "adapter failed" s] a
    by (simp add: RETRY_INTERVAL_MS_def)
  from skip retry show ?thesis by blast
qed

theorem localStorage_quota_cooldown_witness:
  "saveAll \<lparr>blocked = True, lastBlockedTime = 1000\<rparr>
      [(sampleBrowser\<lparr>dateNow := 30000\<rparr>, sampleSnapshot), (sampleBrowser\<lparr>dateNow := 61000\<rparr>, sampleSnapshot)]
     = [\<lparr>adapter = \<lparr>blocked = True, lastBlockedTime = 1000\<rparr>, setItemCalls = [], settled = Resolved ()\<rparr>,
        \<lparr>adapter = \<lparr>blocked = True, lastBlockedTime = 1000\<rparr>, setItemCalls = [], settled = Resolved ()\<rparr>]
   \<and> setItemCalls (LocalStorageAdapter_save (sampleBrowser\<lparr>dateNow := 61001\<rparr>) sampleSnapshot
        \<lparr>blocked = True, lastBlockedTime = 1000\<rparr>) = [(STORAGE_KEY, ''{}'')]"
proof -
  let ?env0 = "sampleBrowser\<lparr>setItemThrows := Some quotaError\<rparr>"
  let ?failed = "\<lparr>adapter = \<lparr>blocked = True, lastBlockedTime = 1000\<rparr>,
                  setItemCalls = [(STORAGE_KEY, ''{}'')], settled = Resolved ()\<rparr>"
  have h1: "LocalStorageAdapter_save ?env0 sampleSnapshot newLocalStorageAdapter = ?failed"
    by (simp add: LocalStorageAdapter_save_def sampleBrowser_def newLocalStorageAdapter_def
        quotaError_def)
  have h2: "setItemCalls ?failed \<noteq> []" by simp
  have h3: "setItemThrows ?env0 = Some quotaError" by simp
  have h4: "isQuotaExceededError quotaError" by (simp add: quotaError_def)
  show ?thesis
    using localStorage_quota_cooldown[OF h1 h2 h3 h4,
        of "[(sampleBrowser\<lparr>dateNow := 30000\<rparr>, sampleSnapshot), (sampleBrowser\<lparr>dateNow := 61000\<rparr>, sampleSnapshot)]"
           "sampleBrowser\<lparr>dateNow := 61001\<rparr>" sampleSnapshot]
    by (simp add: sampleBrowser_def)
qed

text \<open>
  C5 as first stated lets a \<^verbatim>\<open>save\<close> issued exactly 60 seconds after the failure
  write again.  The retry test is \<^verbatim>\<open>Date.now() - lastBlockedTime > RETRY_INTERVAL_MS\<close>:
  after a quota failure at time 1000, the \<^verbatim>\<open>save\<close> at time 61000 is still skipped.
\<close>

theorem localStorage_retry_at_60s_counterexample:
  "LocalStorageAdapter_save (sampleBrowser\<lparr>setItemThrows := Some quotaError\<rparr>) sampleSnapshot
       newLocalStorageAdapter
     = \<lparr>adapter = \<lparr>blocked = True, lastBlockedTime = 1000\<rparr>,
        setItemCalls = [(STORAGE_KEY, ''{}'')], settled = Resolved ()\<rparr>
   \<and> isQuotaExceededError quotaError
   \<and> (61000 :: int) - 1000 \<ge> 60000
   \<and> setItemCalls (LocalStorageAdapter_save (sampleBrowser\<lparr>dateNow := 61000\<rparr>) sampleSnapshot
        \<lparr>blocked = True, lastBlockedTime = 1000\<rparr>) = []"
  by (simp add: LocalStorageAdapter_save_def sampleBrowser_def newLocalStorageAdapter_def
      quotaError_def RETRY_INTERVAL_MS_def)

text \<open>
  C10.  The localStorage adapter is blocked after a \<^verbatim>\<open>save\<close> only if it was blocked before
  and the call was skipped, or the call wrote and \<^verbatim>\<open>setItem\<close> threw a quota error.  When a
  \<^verbatim>\<open>save\<close> fails with any other thrown value, the adapter is not blocked afterwards, and the
  very next \<^verbatim>\<open>save\<close> in a browser calls \<^verbatim>\<open>setItem\<close> again.  A quota error is a
  \<^verbatim>\<open>DOMException\<close> named \<^verbatim>\<open>QuotaExceededError\<close>, or with code 22, or named
  \<^verbatim>\<open>NS_ERROR_DOM_QUOTA_REACHED\<close>.
\<close>

theorem localStorage_blocks_only_on_quota:
  "(blocked (adapter (LocalStorageAdapter_save env s this)) \<longrightarrow>
      (blocked this \<and> setItemCalls (LocalStorageAdapter_save env s this) = [])
      \<or> (\<exists>e. setItemThrows env = Some e \<and> isQuotaExceededError e
              \<and> setItemCalls (LocalStorageAdapter_save env s this) \<noteq> []))
   \<and> (setItemCalls (LocalStorageAdapter_save env s this) \<noteq> [] \<and> setItemThrows env = Some e
        \<and> \<not> isQuotaExceededError e \<longrightarrow>
      \<not> blocked (adapter (LocalStorageAdapter_save env s this))
      \<and> (hasWindow env' \<longrightarrow>
           setItemCalls (LocalStorageAdapter_save env' s' (adapter (LocalStorageAdapter_save env s this)))
             = [(STORAGE_KEY, stringify env' s')]))
   \<and> (isQuotaExceededError e \<longleftrightarrow>
        (\<exists>name code. e = DOMException name code \<and>
           (name = ''QuotaExceededError'' \<or> code = 22 \<or> name = ''NS_ERROR_DOM_QUOTA_REACHED'')))"
  using save_blocked_cases[of env s this] save_other_failure_unblocked[of env s this e]
    save_unblocked_writes[of env' "adapter (LocalStorageAdapter_save env s this)" s']
    isQuotaExceededError_iff[of e]
  by blast

theorem localStorage_blocks_only_on_quota_witness:
  "\<not> blocked (adapter (LocalStorageAdapter_save
        (sampleBrowser\<lparr>setItemThrows := Some (DOMException ''SecurityError'' 18)\<rparr>) sampleSnapshot
        newLocalStorageAdapter))
   \<and> setItemCalls (LocalStorageAdapter_save sampleBrowser sampleSnapshot
        (adapter (LocalStorageAdapter_save
          (sampleBrowser\<lparr>setItemThrows := Some (DOMException ''SecurityError'' 18)\<rparr>) sampleSnapshot
          newLocalStorageAdapter))) = [(STORAGE_KEY, ''{}'')]"
proof -
  let ?env = "sampleBrowser\<lparr>setItemThrows := Some (DOMException ''SecurityError'' 18)\<rparr>"
  have h1: "setItemCalls (LocalStorageAdapter_save ?env sampleSnapshot newLocalStorageAdapter) \<noteq> []"
    by (simp add: LocalStorageAdapter_save_def sampleBrowser_def newLocalStorageAdapter_def)
  have h2: "setItemThrows ?env = Some (DOMException ''SecurityError'' 18)" by simp
  have h3: "\<not> isQuotaExceededError (DOMException ''SecurityError'' 18)" by simp
  have h4: "hasWindow sampleBrowser" "stringify sampleBrowser sampleSnapshot = ''{}''"
    by (simp_all add: sampleBrowser_def)
  show ?thesis
    using localStorage_blocks_only_on_quota[of ?env sampleSnapshot newLocalStorageAdapter
        "DOMException ''SecurityError'' 18" sampleBrowser sampleSnapshot] h1 h2 h3 h4
    by simp
qed

subsection \<open>LocalStorageAdapter.load\<close>

lemma load_resolves: "\<exists>v. LocalStorageAdapter_load env = Resolved v"
  by (auto simp add: LocalStorageAdapter_load_def split: sum.splits option.splits)

lemma load_Some_shape:
  assumes "LocalStorageAdapter_load env = Resolved (Some v)"
  shows "\<exists>kvs xs. v = JObj kvs \<and> map_of kvs ''sessions'' = Some (JArr xs)"
proof -
  from assms have t: "truthy v" "typeof v = ''object''" "isArray (getProp v ''sessions'')"
    by (auto simp add: LocalStorageAdapter_load_def split: sum.splits option.splits if_splits)
  from t(3) obtain kvs where v: "v = JObj kvs" by (cases v) auto
  with t(3) obtain xs where "map_of kvs ''sessions'' = Some (JArr xs)"
    by (cases "(map_of kvs ''sessions'')" rule: isArray.cases) auto
  with v show ?thesis by blast
qed

lemma load_payload:
  assumes "LocalStorageAdapter_load env = Resolved (Some v)"
  shows "\<exists>raw. getItem env STORAGE_KEY = Inr (Some raw) \<and> parse env raw = Inr v"
  using assms
  by (auto simp add: LocalStorageAdapter_load_def split: sum.splits option.splits if_splits)

lemma load_malformed_None:
  assumes "getItem env STORAGE_KEY = Inr (Some raw)" and "parse env raw = Inr parsed"
    and "(\<forall>kvs. parsed \<noteq> JObj kvs) \<or> \<not> isArray (getProp parsed ''sessions'')"
  shows "LocalStorageAdapter_load env = Resolved None"
proof -
  obtain v where v: "LocalStorageAdapter_load env = Resolved v" using load_resolves by blast
  show ?thesis
  proof (cases v)
    case None
    with v show ?thesis by simp
  next
    case (Some p)
    with v load_payload[of env p] assms(1,2) have "p = parsed" by auto
    with v Some load_Some_shape[of env p] assms(3) show ?thesis by auto
  qed
qed

text \<open>
  C8.  When the stored payload parses to a value that is not an object, or to one whose
  \<^verbatim>\<open>sessions\<close> property is not an array, \<^verbatim>\<open>load\<close> of the localStorage adapter resolves to
  \<^verbatim>\<open>null\<close>.  Whatever \<^verbatim>\<open>load\<close> returns other than \<^verbatim>\<open>null\<close> is an object whose
  \<^verbatim>\<open>sessions\<close> property is an array.
\<close>

theorem localStorage_load_ignores_malformed:
  "(getItem env STORAGE_KEY = Inr (Some raw) \<and> parse env raw = Inr parsed
      \<and> ((\<forall>kvs. parsed \<noteq> JObj kvs) \<or> \<not> isArray (getProp parsed ''sessions''))
     \<longrightarrow> LocalStorageAdapter_load env = Resolved None)
   \<and> (LocalStorageAdapter_load env = Resolved (Some v)
     \<longrightarrow> (\<exists>kvs xs. v = JObj kvs \<and> getProp v ''sessions'' = Some (JArr xs)))"
proof -
  have a: "getItem env STORAGE_KEY = Inr (Some raw) \<Longrightarrow> parse env raw = Inr parsed
      \<Longrightarrow> (\<forall>kvs. parsed \<noteq> JObj kvs) \<or> \<not> isArray (getProp parsed ''sessions'')
      \<Longrightarrow> LocalStorageAdapter_load env = Resolved None"
    by (rule load_malformed_None)
  have b: "LocalStorageAdapter_load env = Resolved (Some v)
     \<Longrightarrow> \<exists>kvs xs. v = JObj kvs \<and> getProp v ''sessions'' = Some (JArr xs)"
    using load_Some_shape[of env v] by auto
  from a b show ?thesis by blast
qed

theorem localStorage_load_ignores_malformed_witness:
  "LocalStorageAdapter_load
     (sampleBrowser\<lparr>getItem := (\<lambda>k. Inr (Some ''[1]'')), parse := (\<lambda>raw. Inr (JArr [JNum 1]))\<rparr>)
     = Resolved None
   \<and> LocalStorageAdapter_load
     (sampleBrowser\<lparr>getItem := (\<lambda>k. Inr (Some ''{\"sessions\":7}'')),
                     parse := (\<lambda>raw. Inr (JObj [(''sessions'', JNum 7)]))\<rparr>)
     = Resolved None"
proof -
  let ?e1 = "sampleBrowser\<lparr>getItem := (\<lambda>k. Inr (Some ''[1]'')), parse := (\<lambda>raw. Inr (JArr [JNum 1]))\<rparr>"
  let ?e2 = "sampleBrowser\<lparr>getItem := (\<lambda>k. Inr (Some ''{\"sessions\":7}'')),
                     parse := (\<lambda>raw. Inr (JObj [(''sessions'', JNum 7)]))\<rparr>"
  have "LocalStorageAdapter_load ?e1 = Resolved None"
    using localStorage_load_ignores_malformed[of ?e1 "''[1]''" "JArr [JNum 1]"] by simp
  moreover have "LocalStorageAdapter_load ?e2 = Resolved None"
    using localStorage_load_ignores_malformed[of ?e2 "''{\"sessions\":7}''" "JObj [(''sessions'', JNum 7)]"]
    by simp
  ultimately show ?thesis by simp
qed

subsection \<open>MemoryStorageAdapter\<close>

text \<open>
  C9.  For every snapshot \<open>s\<close> and every state of the in-memory adapter, \<^verbatim>\<open>save(s)\<close>
  resolves, and \<^verbatim>\<open>load()\<close> after it resolves to a snapshot equal to \<open>s\<close>.
\<close>

theorem memory_adapter_round_trip:
  "MemoryStorageAdapter_load (fst (MemoryStorageAdapter_save s this)) = Resolved (Some s)
   \<and> snd (MemoryStorageAdapter_save s this) = Resolved ()"
  by (simp add: MemoryStorageAdapter_load_def MemoryStorageAdapter_save_def cloneSnapshot_id)

theorem memory_adapter_round_trip_witness:
  "MemoryStorageAdapter_load (fst (MemoryStorageAdapter_save sampleSnapshot newMemoryStorageAdapter))
     = Resolved (Some \<lparr>sessions = [sampleSession], activeSessionId = None\<rparr>)"
  using memory_adapter_round_trip[of sampleSnapshot newMemoryStorageAdapter]
  by (simp add: sampleSnapshot_def)

subsection \<open>No adapter rejects\<close>

lemma tryCatch_absorbs: "tryCatch body (\<lambda>error. Resolved v) \<noteq> Rejected x"
  by (simp add: tryCatch_def split: promise.splits)

lemma idb_load_never_rejects: "IndexedDbStorageAdapter_load db \<noteq> Rejected x"
  by (simp add: IndexedDbStorageAdapter_load_def tryCatch_absorbs)

lemma idb_save_never_rejects: "IndexedDbStorageAdapter_save db s \<noteq> Rejected x"
  by (simp add: IndexedDbStorageAdapter_save_def tryCatch_absorbs)

text \<open>
  C6.  Whatever the browser, the database and the adapter's state: \<^verbatim>\<open>load\<close> and \<^verbatim>\<open>save\<close>
  of the localStorage adapter and of the in-memory adapter resolve, and \<^verbatim>\<open>load\<close> and
  \<^verbatim>\<open>save\<close> of the IndexedDB adapter never reject.  A failure underneath is absorbed: when
  \<^verbatim>\<open>getItem\<close> or \<^verbatim>\<open>JSON.parse\<close> throws, or a step of the IndexedDB read rejects, \<^verbatim>\<open>load\<close>
  resolves to \<^verbatim>\<open>null\<close>; when a step of the IndexedDB write rejects, \<^verbatim>\<open>save\<close> resolves.
\<close>

theorem storage_adapters_never_reject:
  "(\<exists>v. LocalStorageAdapter_load env = Resolved v)
   \<and> settled (LocalStorageAdapter_save env s this) = Resolved ()
   \<and> (\<exists>v. MemoryStorageAdapter_load m = Resolved v)
   \<and> snd (MemoryStorageAdapter_save s m) = Resolved ()
   \<and> IndexedDbStorageAdapter_load db \<noteq> Rejected x
   \<and> IndexedDbStorageAdapter_save db s \<noteq> Rejected x
   \<and> (getItem env STORAGE_KEY = Inl x \<longrightarrow> LocalStorageAdapter_load env = Resolved None)
   \<and> (getItem env STORAGE_KEY = Inr (Some raw) \<and> parse env raw = Inl x
        \<longrightarrow> LocalStorageAdapter_load env = Resolved None)
   \<and> (hasIndexedDB db \<and> IndexedDb_load_body db = Rejected x
        \<longrightarrow> IndexedDbStorageAdapter_load db = Resolved None)
   \<and> (hasIndexedDB db \<and> IndexedDb_save_body db s = Rejected x
        \<longrightarrow> IndexedDbStorageAdapter_save db s = Resolved ())"
proof -
  have 1: "\<exists>v. LocalStorageAdapter_load env = Resolved v" by (rule load_resolves)
  have 2: "settled (LocalStorageAdapter_save env s this) = Resolved ()" by (rule save_settles)
  have 3: "\<exists>v. MemoryStorageAdapter_load m = Resolved v"
    by (simp add: MemoryStorageAdapter_load_def)
  have 4: "snd (MemoryStorageAdapter_save s m) = Resolved ()"
    by (simp add: MemoryStorageAdapter_save_def)
  have 5: "IndexedDbStorageAdapter_load db \<noteq> Rejected x" by (rule idb_load_never_rejects)
  have 6: "IndexedDbStorageAdapter_save db s \<noteq> Rejected x" by (rule idb_save_never_rejects)
  have 7: "getItem env STORAGE_KEY = Inl x \<longrightarrow> LocalStorageAdapter_load env = Resolved None"
    by (simp add: LocalStorageAdapter_load_def)
  have 8: "getItem env STORAGE_KEY = Inr (Some raw) \<and> parse env raw = Inl x
        \<longrightarrow> LocalStorageAdapter_load env = Resolved None"
    by (simp add: LocalStorageAdapter_load_def)
  have 9: "hasIndexedDB db \<and> IndexedDb_load_body db = Rejected x
        \<longrightarrow> IndexedDbStorageAdapter_load db = Resolved None"
    by (simp add: IndexedDbStorageAdapter_load_def tryCatch_def)
  have 10: "hasIndexedDB db \<and> IndexedDb_save_body db s = Rejected x
        \<longrightarrow> IndexedDbStorageAdapter_save db s = Resolved ()"
    by (simp add: IndexedDbStorageAdapter_save_def tryCatch_def)
  from 1 2 3 4 5 6 7 8 9 10 show ?thesis by blast
qed

theorem storage_adapters_never_reject_witness:
  "LocalStorageAdapter_load (sampleBrowser\<lparr>getItem := (\<lambda>k. Inl (DOMException ''SecurityError'' 18))\<rparr>)
     = Resolved None
   \<and> IndexedDb_load_body (sampleIdb\<lparr>getRequest := Rejected (OtherError ''IndexedDB read failed'')\<rparr>)
     = Rejected (OtherError ''IndexedDB read failed'')
   \<and> IndexedDbStorageAdapter_load (sampleIdb\<lparr>getRequest := Rejected (OtherError ''IndexedDB read failed'')\<rparr>)
     = Resolved None
   \<and> IndexedDb_save_body (sampleIdb\<lparr>opened := Rejected (OtherError ''IndexedDB unavailable'')\<rparr>) sampleSnapshot
     = Rejected (OtherError ''IndexedDB unavailable'')
   \<and> IndexedDbStorageAdapter_save (sampleIdb\<lparr>opened := Rejected (OtherError ''IndexedDB unavailable'')\<rparr>)
       sampleSnapshot = Resolved ()"
proof -
  let ?env = "sampleBrowser\<lparr>getItem := (\<lambda>k. Inl (DOMException ''SecurityError'' 18))\<rparr>"
  let ?db1 = "sampleIdb\<lparr>getRequest := Rejected (OtherError ''IndexedDB read failed'')\<rparr>"
  let ?db2 = "sampleIdb\<lparr>opened := Rejected (OtherError ''IndexedDB unavailable'')\<rparr>"
  have b1: "IndexedDb_load_body ?db1 = Rejected (OtherError ''IndexedDB read failed'')"
    by (simp add: IndexedDb_load_body_def await_def openTransaction_def sampleIdb_def)
  have b2: "IndexedDb_save_body ?db2 sampleSnapshot = Rejected (OtherError ''IndexedDB unavailable'')"
    by (simp add: IndexedDb_save_body_def await_def openTransaction_def sampleIdb_def)
  have h: "hasIndexedDB ?db1" "hasIndexedDB ?db2" by (simp_all add: sampleIdb_def)
  have "LocalStorageAdapter_load ?env = Resolved None"
    using storage_adapters_never_reject[of ?env _ _ _ _ "DOMException ''SecurityError'' 18"]
    by simp
  moreover have "IndexedDbStorageAdapter_load ?db1 = Resolved None"
    using storage_adapters_never_reject[of _ _ _ _ ?db1 "OtherError ''IndexedDB read failed''"] b1 h
    by simp
  moreover have "IndexedDbStorageAdapter_save ?db2 sampleSnapshot = Resolved ()"
    using storage_adapters_never_reject[of _ sampleSnapshot _ _ ?db2 "OtherError ''IndexedDB unavailable''"] b2 h
    by simp
  ultimately show ?thesis using b1 b2 by simp
qed

section \<open>Properties of the unconfigured transport\<close>

text \<open>
  C7.  The transport used before a relay connection exists: \<^verbatim>\<open>publish\<close> returns a promise
  that is already rejected (it neither throws nor stays pending), whatever it is given;
  \<^verbatim>\<open>subscribe\<close> does not throw, and the handle it returns does not throw and changes
  nothing.
\<close>

theorem missingTransport_fails_fast:
  "publish (missingTransport :: ('e, 'f, 'w) TransportConfig) args
     = Returns (Rejected (OtherError ''NIP-46 transport is not configured''))
   \<and> (\<exists>unsubscribe.
        subscribe (missingTransport :: ('e, 'f, 'w) TransportConfig) listener = Returns unsubscribe
        \<and> (\<forall>listeners. unsubscribe listeners = Returns listeners))"
  by (simp add: missingTransport_def)

theorem missingTransport_fails_fast_witness:
  "publish (missingTransport :: (string, string, string list) TransportConfig) ''event''
     = Returns (Rejected (OtherError ''NIP-46 transport is not configured''))
   \<and> (\<exists>unsubscribe.
        subscribe (missingTransport :: (string, string, string list) TransportConfig) ''listener''
          = Returns unsubscribe
        \<and> unsubscribe [''other listener''] = Returns [''other listener''])"
  using missingTransport_fails_fast[where ?'e = string and ?'f = string and ?'w = "string list",
      of "''event''" "''listener''"]
  by blast

section \<open>Properties of the provider's effects\<close>

subsection \<open>Truthiness tests, spelled out\<close>

lemma truthyStr_iff: "truthyStr v \<longleftrightarrow> (\<exists>k. v = Some k \<and> k \<noteq> [])"
  by (cases v) (auto simp add: truthyStr_def)

lemma not_truthyStr_iff: "\<not> truthyStr v \<longleftrightarrow> (v = None \<or> v = Some [])"
  by (cases v) (auto simp add: truthyStr_def)

lemma shouldReconnect_iff:
  "shouldReconnect now adopted session \<longleftrightarrow>
     (adopted = Some (session_id session)
      \<or> (\<exists>seen. lastSeenAt session = Some seen \<and> now - seen \<le> 60000))"
  by (cases "lastSeenAt session") (auto simp add: shouldReconnect_def RECONNECT_COOLDOWN_MS_def)

lemma qualifies_iff:
  "qualifies s \<longleftrightarrow>
     status s = Active \<and> (\<exists>k. userPubkey s = Some k \<and> k \<noteq> [])
     \<and> (lastError s = None \<or> lastError s = Some [])"
  by (cases "userPubkey s"; cases "lastError s") (auto simp add: qualifies_def truthyStr_def)

lemma qualifies_updatedAt: "qualifies (s\<lparr>updatedAt := u\<rparr>) = qualifies s"
  by (simp add: qualifies_def)

subsection \<open>Adoption candidate\<close>

lemma find_first:
  "find P xs = Some c \<Longrightarrow> \<exists>before after. xs = before @ c # after \<and> P c \<and> (\<forall>s \<in> set before. \<not> P s)"
proof (induction xs)
  case Nil
  then show ?case by simp
next
  case (Cons x xs)
  show ?case
  proof (cases "P x")
    case True
    with Cons.prems have "x = c" by simp
    with True have "x # xs = [] @ c # xs \<and> P c \<and> (\<forall>s \<in> set []. \<not> P s)" by simp
    then show ?thesis by blast
  next
    case False
    with Cons.prems have "find P xs = Some c" by simp
    from Cons.IH[OF this] obtain before after where
      "xs = before @ c # after" "P c" "\<forall>s \<in> set before. \<not> P s" by blast
    with False have "x # xs = (x # before) @ c # after \<and> P c \<and> (\<forall>s \<in> set (x # before). \<not> P s)"
      by simp
    then show ?thesis by blast
  qed
qed

lemma find_restamped:
  "find qualifies (map (\<lambda>s. s\<lparr>updatedAt := stamp s\<rparr>) xs)
     = map_option (\<lambda>s. s\<lparr>updatedAt := stamp s\<rparr>) (find qualifies xs)"
  by (induction xs) (simp_all add: qualifies_updatedAt)

text \<open>
  C1 (amended).  The session chosen for adoption is the first one, in the order of the
  snapshot's list, among those with status \<^verbatim>\<open>active\<close>, a non-empty \<^verbatim>\<open>userPubkey\<close> and a
  \<^verbatim>\<open>lastError\<close> that is nil or empty; there is none exactly when no session qualifies.
  \<^verbatim>\<open>updatedAt\<close> plays no part: stamping the sessions with any other \<^verbatim>\<open>updatedAt\<close> values
  leaves the same session the candidate.
\<close>

theorem adoptionCandidate_first_qualifying:
  "(adoptionCandidate snapshot = None \<longleftrightarrow> (\<forall>s \<in> set (sessions snapshot). \<not> qualifies s))
   \<and> (adoptionCandidate snapshot = Some c \<longrightarrow>
        (\<exists>before after. sessions snapshot = before @ c # after
            \<and> (\<forall>s \<in> set before. \<not> qualifies s))
        \<and> qualifies c)
   \<and> (qualifies s \<longleftrightarrow>
        status s = Active \<and> (\<exists>k. userPubkey s = Some k \<and> k \<noteq> [])
        \<and> (lastError s = None \<or> lastError s = Some []))
   \<and> adoptionCandidate (snapshot\<lparr>sessions := map (\<lambda>s. s\<lparr>updatedAt := stamp s\<rparr>) (sessions snapshot)\<rparr>)
        = map_option (\<lambda>s. s\<lparr>updatedAt := stamp s\<rparr>) (adoptionCandidate snapshot)"
proof -
  have 1: "adoptionCandidate snapshot = None \<longleftrightarrow> (\<forall>s \<in> set (sessions snapshot). \<not> qualifies s)"
    by (auto simp add: adoptionCandidate_def find_None_iff)
  have 2: "adoptionCandidate snapshot = Some c \<longrightarrow>
        (\<exists>before after. sessions snapshot = before @ c # after
            \<and> (\<forall>s \<in> set before. \<not> qualifies s))
        \<and> qualifies c"
    using find_first[of qualifies "sessions snapshot" c] by (auto simp add: adoptionCandidate_def)
  have 3: "adoptionCandidate (snapshot\<lparr>sessions := map (\<lambda>s. s\<lparr>updatedAt := stamp s\<rparr>) (sessions snapshot)\<rparr>)
        = map_option (\<lambda>s. s\<lparr>updatedAt := stamp s\<rparr>) (adoptionCandidate snapshot)"
    by (simp add: adoptionCandidate_def find_restamped)
  from 1 2 3 qualifies_iff[of s] show ?thesis by blast
qed

theorem adoptionCandidate_first_qualifying_witness:
  "adoptionCandidate
     \<lparr>sessions = [sampleSession\<lparr>session_id := ''s0'', status := Revoked\<rparr>, sampleSession,
                  sampleSession\<lparr>session_id := ''s2'', updatedAt := 9\<rparr>],
      activeSessionId = None\<rparr> = Some sampleSession
   \<and> (\<exists>before after.
        [sampleSession\<lparr>session_id := ''s0'', status := Revoked\<rparr>, sampleSession,
         sampleSession\<lparr>session_id := ''s2'', updatedAt := 9\<rparr>] = before @ sampleSession # after
        \<and> list_all (\<lambda>s. \<not> qualifies s) before)"
proof -
  let ?snap = "\<lparr>sessions = [sampleSession\<lparr>session_id := ''s0'', status := Revoked\<rparr>, sampleSession,
                  sampleSession\<lparr>session_id := ''s2'', updatedAt := 9\<rparr>],
      activeSessionId = None\<rparr>"
  have c: "adoptionCandidate ?snap = Some sampleSession"
    by (simp add: adoptionCandidate_def qualifies_def sampleSession_def truthyStr_def)
  from adoptionCandidate_first_qualifying[of ?snap sampleSession, THEN conjunct2, THEN conjunct1] c
  have "\<exists>before after. sessions ?snap = before @ sampleSession # after
            \<and> (\<forall>s \<in> set before. \<not> qualifies s)"
    by blast
  then have "\<exists>before after.
        [sampleSession\<lparr>session_id := ''s0'', status := Revoked\<rparr>, sampleSession,
         sampleSession\<lparr>session_id := ''s2'', updatedAt := 9\<rparr>] = before @ sampleSession # after
        \<and> list_all (\<lambda>s. \<not> qualifies s) before"
    by (simp only: list_all_iff SessionSnapshot.simps)
  with c show ?thesis by blast
qed

text \<open>
  C1 as first stated picks the qualifying session with the largest \<^verbatim>\<open>updatedAt\<close>.  With
  two qualifying sessions, the first updated at 5 and the second at 9, the candidate is the
  first.  The tests on \<^verbatim>\<open>userPubkey\<close> and \<^verbatim>\<open>lastError\<close> are truthiness tests: a session
  whose \<^verbatim>\<open>userPubkey\<close> is the empty string (not nil) is passed over, and one whose
  \<^verbatim>\<open>lastError\<close> is the empty string (not nil) is chosen.
\<close>

theorem adoptionCandidate_not_most_recent_counterexample:
  "adoptionCandidate
     \<lparr>sessions = [sampleSession\<lparr>updatedAt := 5\<rparr>,
                  sampleSession\<lparr>session_id := ''s2'', userPubkey := Some ''user2'', updatedAt := 9\<rparr>],
      activeSessionId = None\<rparr> = Some (sampleSession\<lparr>updatedAt := 5\<rparr>)
   \<and> qualifies (sampleSession\<lparr>session_id := ''s2'', userPubkey := Some ''user2'', updatedAt := 9\<rparr>)
   \<and> updatedAt (sampleSession\<lparr>session_id := ''s2'', userPubkey := Some ''user2'', updatedAt := 9\<rparr>)
       > updatedAt (sampleSession\<lparr>updatedAt := 5\<rparr>)
   \<and> adoptionCandidate
       \<lparr>sessions = [sampleSession\<lparr>userPubkey := Some ''''\<rparr>], activeSessionId = None\<rparr> = None
   \<and> adoptionCandidate
       \<lparr>sessions = [sampleSession\<lparr>lastError := Some ''''\<rparr>], activeSessionId = None\<rparr>
       = Some (sampleSession\<lparr>lastError := Some ''''\<rparr>)"
  by (simp add: adoptionCandidate_def qualifies_def sampleSession_def truthyStr_def)

subsection \<open>Reconnection: which sessions are attempted\<close>

lemma reconnectSession_cases:
  "reconnectSession now adopted acc session = acc
   \<or> (reconnectSession now adopted acc session =
         ((fst acc)\<lparr>reconnectTrackerRef := insert (session_id session) (reconnectTrackerRef (fst acc)),
                    reconnectCooldownRef := (reconnectCooldownRef (fst acc))(session_id session \<mapsto> now)\<rparr>,
          snd acc @ [session_id session])
       \<and> status session = Active
       \<and> truthyStr (remoteSignerPubkey session)
       \<and> \<not> truthyStr (lastError session)
       \<and> shouldReconnect now adopted session
       \<and> session_id session \<notin> reconnectTrackerRef (fst acc)
       \<and> \<not> coolingDown now (reconnectCooldownRef (fst acc) (session_id session)))"
  by (simp add: reconnectSession_def)

lemma foldl_reconnect_calls:
  "sid \<in> set (snd (foldl (reconnectSession now adopted) acc xs)) \<Longrightarrow>
     sid \<in> set (snd acc)
     \<or> (\<exists>s \<in> set xs. session_id s = sid \<and> status s = Active
           \<and> truthyStr (remoteSignerPubkey s) \<and> \<not> truthyStr (lastError s)
           \<and> shouldReconnect now adopted s)"
proof (induction xs arbitrary: acc)
  case Nil
  then show ?case by simp
next
  case (Cons x xs)
  from Cons.prems have "sid \<in> set (snd (foldl (reconnectSession now adopted)
      (reconnectSession now adopted acc x) xs))" by simp
  from Cons.IH[OF this] show ?case
    using reconnectSession_cases[of now adopted acc x] by auto
qed

lemma reconnectEffect_calls:
  assumes "sid \<in> set (snd (reconnectEffect deps now snapshot refs))"
  shows "\<exists>s \<in> set (sessions snapshot). session_id s = sid \<and> status s = Active
           \<and> truthyStr (remoteSignerPubkey s) \<and> \<not> truthyStr (lastError s)
           \<and> shouldReconnect now (activeSessionRef refs) s"
proof -
  from assms have "sid \<in> set (snd (foldl (reconnectSession now (activeSessionRef refs)) (refs, [])
      (sessions snapshot)))"
    by (simp add: reconnectEffect_def split: if_splits)
  from foldl_reconnect_calls[OF this] show ?thesis by simp
qed

lemma reconnectSession_skips:
  assumes "\<not> (status session = Active
             \<and> (\<exists>k. remoteSignerPubkey session = Some k \<and> k \<noteq> [])
             \<and> (lastError session = None \<or> lastError session = Some [])
             \<and> (adopted = Some (session_id session)
                 \<or> (\<exists>seen. lastSeenAt session = Some seen \<and> now - seen \<le> 60000)))"
  shows "reconnectSession now adopted acc session = acc"
proof -
  from assms have "status session \<noteq> Active \<or> \<not> truthyStr (remoteSignerPubkey session)
      \<or> truthyStr (lastError session) \<or> \<not> shouldReconnect now adopted session"
    unfolding truthyStr_iff[symmetric] not_truthyStr_iff[symmetric] shouldReconnect_iff[symmetric]
    by blast
  then show ?thesis by (auto simp add: reconnectSession_def)
qed

lemma sample_reconnect:
  "reconnectEffect allReady 1000 sampleSnapshot newRefs =
     (\<lparr>activeSessionRef = None, reconnectTrackerRef = {''s1''},
       reconnectCooldownRef = [''s1'' \<mapsto> 1000]\<rparr>, [''s1''])"
  by (simp add: reconnectEffect_def reconnectSession_def allReady_def sampleSnapshot_def
      sampleSession_def newRefs_def truthyStr_def shouldReconnect_def coolingDown_def
      RECONNECT_COOLDOWN_MS_def)

text \<open>
  C3 (amended).  A run of the reconnection effect calls \<^verbatim>\<open>connectSession\<close> for a session
  id only if the snapshot holds a session with that id whose status is \<^verbatim>\<open>active\<close>, whose
  \<^verbatim>\<open>remoteSignerPubkey\<close> is set (and not empty), whose \<^verbatim>\<open>lastError\<close> is nil or the empty
  string, and which either is the session the adoption ref names or has a \<^verbatim>\<open>lastSeenAt\<close>
  with \<^verbatim>\<open>now - lastSeenAt\<close> at most 60000 ms.  A session that fails one of these
  conditions is passed over: its turn of the loop issues no call and changes no ref.
\<close>

theorem reconnect_candidates_only:
  "(sid \<in> set (snd (reconnectEffect deps now snapshot refs)) \<longrightarrow>
      (\<exists>session \<in> set (sessions snapshot).
           session_id session = sid
           \<and> status session = Active
           \<and> (\<exists>k. remoteSignerPubkey session = Some k \<and> k \<noteq> [])
           \<and> (lastError session = None \<or> lastError session = Some [])
           \<and> (activeSessionRef refs = Some sid
               \<or> (\<exists>seen. lastSeenAt session = Some seen \<and> now - seen \<le> 60000))))
   \<and> (\<not> (status s = Active
           \<and> (\<exists>k. remoteSignerPubkey s = Some k \<and> k \<noteq> [])
           \<and> (lastError s = None \<or> lastError s = Some [])
           \<and> (adopted = Some (session_id s)
               \<or> (\<exists>seen. lastSeenAt s = Some seen \<and> now - seen \<le> 60000))) \<longrightarrow>
      reconnectSession now adopted acc s = acc)"
proof -
  have 1: "\<exists>session \<in> set (sessions snapshot).
           session_id session = sid
           \<and> status session = Active
           \<and> (\<exists>k. remoteSignerPubkey session = Some k \<and> k \<noteq> [])
           \<and> (lastError session = None \<or> lastError session = Some [])
           \<and> (activeSessionRef refs = Some sid
               \<or> (\<exists>seen. lastSeenAt session = Some seen \<and> now - seen \<le> 60000))"
    if called: "sid \<in> set (snd (reconnectEffect deps now snapshot refs))"
  proof -
    from reconnectEffect_calls[OF called] obtain x where x: "x \<in> set (sessions snapshot)"
      "session_id x = sid" "status x = Active" "truthyStr (remoteSignerPubkey x)"
      "\<not> truthyStr (lastError x)" "shouldReconnect now (activeSessionRef refs) x"
      by blast
    from x(4) have a: "\<exists>k. remoteSignerPubkey x = Some k \<and> k \<noteq> []" by (simp add: truthyStr_iff)
    from x(5) have b: "lastError x = None \<or> lastError x = Some []" by (simp add: not_truthyStr_iff)
    from x(6) x(2) have c: "activeSessionRef refs = Some sid
        \<or> (\<exists>seen. lastSeenAt x = Some seen \<and> now - seen \<le> 60000)"
      by (simp add: shouldReconnect_iff)
    from x(1,2,3) a b c show ?thesis by blast
  qed
  from 1 reconnectSession_skips[of s adopted now acc] show ?thesis by blast
qed

theorem reconnect_candidates_only_witness:
  "snd (reconnectEffect allReady 1000 sampleSnapshot newRefs) = [''s1'']
   \<and> (\<exists>session \<in> set (sessions sampleSnapshot).
           session_id session = ''s1''
           \<and> status session = Active
           \<and> (\<exists>k. remoteSignerPubkey session = Some k \<and> k \<noteq> [])
           \<and> (lastError session = None \<or> lastError session = Some [])
           \<and> (activeSessionRef newRefs = Some ''s1''
               \<or> (\<exists>seen. lastSeenAt session = Some seen \<and> 1000 - seen \<le> 60000)))
   \<and> reconnectSession 1000 None (newRefs, []) (sampleSession\<lparr>lastSeenAt := None\<rparr>) = (newRefs, [])"
proof -
  have h: "''s1'' \<in> set (snd (reconnectEffect allReady 1000 sampleSnapshot newRefs))"
    by (simp add: sample_reconnect)
  have n: "\<not> (status (sampleSession\<lparr>lastSeenAt := None\<rparr>) = Active
           \<and> (\<exists>k. remoteSignerPubkey (sampleSession\<lparr>lastSeenAt := None\<rparr>) = Some k \<and> k \<noteq> [])
           \<and> (lastError (sampleSession\<lparr>lastSeenAt := None\<rparr>) = None
               \<or> lastError (sampleSession\<lparr>lastSeenAt := None\<rparr>) = Some [])
           \<and> (None = Some (session_id (sampleSession\<lparr>lastSeenAt := None\<rparr>))
               \<or> (\<exists>seen. lastSeenAt (sampleSession\<lparr>lastSeenAt := None\<rparr>) = Some seen
                     \<and> 1000 - seen \<le> 60000)))"
    by simp
  note inst = reconnect_candidates_only[of "''s1''" allReady 1000 sampleSnapshot newRefs
      "sampleSession\<lparr>lastSeenAt := None\<rparr>" None "(newRefs, [])"]
  from inst[THEN conjunct1] h
  have 1: "\<exists>session \<in> set (sessions sampleSnapshot).
           session_id session = ''s1''
           \<and> status session = Active
           \<and> (\<exists>k. remoteSignerPubkey session = Some k \<and> k \<noteq> [])
           \<and> (lastError session = None \<or> lastError session = Some [])
           \<and> (activeSessionRef newRefs = Some ''s1''
               \<or> (\<exists>seen. lastSeenAt session = Some seen \<and> 1000 - seen \<le> 60000))"
    by blast
  from inst[THEN conjunct2] n
  have 2: "reconnectSession 1000 None (newRefs, []) (sampleSession\<lparr>lastSeenAt := None\<rparr>) = (newRefs, [])"
    by blast
  from 1 2 show ?thesis by (simp add: sample_reconnect)
qed

text \<open>
  C3 as first stated requires \<^verbatim>\<open>lastError\<close> to be nil.  The test is
  \<^verbatim>\<open>if (session.lastError) return\<close>, which lets the empty string through: a session whose
  \<^verbatim>\<open>lastError\<close> is the empty string is attempted.
\<close>

theorem reconnect_empty_lastError_counterexample:
  "snd (reconnectEffect allReady 1000
          \<lparr>sessions = [sampleSession\<lparr>lastError := Some ''''\<rparr>], activeSessionId = None\<rparr> newRefs)
     = [''s1'']
   \<and> lastError (sampleSession\<lparr>lastError := Some ''''\<rparr>) \<noteq> None"
  by (simp add: reconnectEffect_def reconnectSession_def allReady_def
      sampleSession_def newRefs_def truthyStr_def shouldReconnect_def coolingDown_def
      RECONNECT_COOLDOWN_MS_def)

subsection \<open>Reconnection: the cooldown\<close>

lemma reconnectSession_cooling:
  assumes "reconnectCooldownRef (fst acc) sid = Some t" and "t \<noteq> 0"
    and "now - t < RECONNECT_COOLDOWN_MS"
  shows "reconnectCooldownRef (fst (reconnectSession now adopted acc session)) sid = Some t
       \<and> (sid \<in> set (snd (reconnectSession now adopted acc session)) \<longrightarrow> sid \<in> set (snd acc))"
proof (cases "session_id session = sid")
  case True
  with assms have "coolingDown now (reconnectCooldownRef (fst acc) (session_id session))"
    by (simp add: coolingDown_def)
  then have "reconnectSession now adopted acc session = acc"
    by (simp add: reconnectSession_def)
  with assms show ?thesis by simp
next
  case False
  with assms show ?thesis
    using reconnectSession_cases[of now adopted acc session] by auto
qed

lemma foldl_reconnect_cooling:
  assumes "reconnectCooldownRef (fst acc) sid = Some t" and "t \<noteq> 0"
    and "now - t < RECONNECT_COOLDOWN_MS" and "sid \<notin> set (snd acc)"
  shows "reconnectCooldownRef (fst (foldl (reconnectSession now adopted) acc xs)) sid = Some t
       \<and> sid \<notin> set (snd (foldl (reconnectSession now adopted) acc xs))"
  using assms
proof (induction xs arbitrary: acc)
  case Nil
  then show ?case by simp
next
  case (Cons x xs)
  have "reconnectCooldownRef (fst (reconnectSession now adopted acc x)) sid = Some t"
    and "sid \<notin> set (snd (reconnectSession now adopted acc x))"
    using reconnectSession_cooling[OF Cons.prems(1,2,3), of adopted x] Cons.prems(4) by auto
  from Cons.IH[OF this(1) Cons.prems(2,3) this(2)] show ?case by simp
qed

lemma reconnectEffect_cooling:
  assumes "reconnectCooldownRef refs sid = Some t" and "t \<noteq> 0"
    and "now - t < RECONNECT_COOLDOWN_MS"
  shows "reconnectCooldownRef (fst (reconnectEffect deps now snapshot refs)) sid = Some t
       \<and> sid \<notin> set (snd (reconnectEffect deps now snapshot refs))"
proof (cases "ready deps \<and> transportReady deps \<and> hasService deps \<and> hasSessionManager deps \<and> hasNdk deps")
  case True
  then show ?thesis
    using foldl_reconnect_cooling[of "(refs, [])" sid t now "activeSessionRef refs" "sessions snapshot"]
      assms by (simp add: reconnectEffect_def)
next
  case False
  with assms show ?thesis by (auto simp add: reconnectEffect_def)
qed

lemma step_cooling:
  assumes "reconnectCooldownRef refs sid = Some t" and "t \<noteq> 0" and "withinCooldown t ev"
  shows "reconnectCooldownRef (fst (step refs ev)) sid = Some t
       \<and> sid \<notin> set (fst (snd (step refs ev)))"
proof (cases ev)
  case (ReconnectRun deps now snapshot)
  with assms show ?thesis
    using reconnectEffect_cooling[of refs sid t now deps snapshot] by (simp add: Let_def)
next
  case (AdoptionRun deps snapshot)
  with assms show ?thesis
    by (auto simp add: Let_def adoptionEffect_def split: option.splits)
next
  case (ConnectSettled id ok)
  with assms show ?thesis by (simp add: connectSessionSettled_def Let_def)
next
  case AdoptRejected
  with assms show ?thesis by (simp add: adoptSignerRejected_def)
qed

lemma connectLog_cooling:
  assumes "reconnectCooldownRef refs sid = Some t" and "t \<noteq> 0"
    and "list_all (withinCooldown t) evs"
  shows "sid \<notin> set (connectLog refs evs)"
  using assms
proof (induction evs arbitrary: refs)
  case Nil
  then show ?case by simp
next
  case (Cons ev evs)
  from Cons.prems have w: "withinCooldown t ev" and ws: "list_all (withinCooldown t) evs" by simp_all
  from step_cooling[OF Cons.prems(1,2) w]
  have c: "reconnectCooldownRef (fst (step refs ev)) sid = Some t"
    and n: "sid \<notin> set (fst (snd (step refs ev)))" by simp_all
  from Cons.IH[OF c Cons.prems(2) ws] n show ?case by (simp add: Let_def)
qed

lemma reconnectSession_stamps:
  assumes "\<forall>sid \<in> set (snd acc). reconnectCooldownRef (fst acc) sid = Some now"
  shows "\<forall>sid \<in> set (snd (reconnectSession now adopted acc session)).
           reconnectCooldownRef (fst (reconnectSession now adopted acc session)) sid = Some now"
  using assms reconnectSession_cases[of now adopted acc session] by auto

lemma foldl_reconnect_stamps:
  assumes "\<forall>sid \<in> set (snd acc). reconnectCooldownRef (fst acc) sid = Some now"
  shows "\<forall>sid \<in> set (snd (foldl (reconnectSession now adopted) acc xs)).
           reconnectCooldownRef (fst (foldl (reconnectSession now adopted) acc xs)) sid = Some now"
  using assms
proof (induction xs arbitrary: acc)
  case Nil
  then show ?case by simp
next
  case (Cons x xs)
  from Cons.IH[OF reconnectSession_stamps[OF Cons.prems, of adopted x]] show ?case by simp
qed

lemma reconnectEffect_stamps:
  assumes "sid \<in> set (snd (reconnectEffect deps now snapshot refs))"
  shows "reconnectCooldownRef (fst (reconnectEffect deps now snapshot refs)) sid = Some now"
proof (cases "ready deps \<and> transportReady deps \<and> hasService deps \<and> hasSessionManager deps \<and> hasNdk deps")
  case True
  then show ?thesis
    using foldl_reconnect_stamps[of "(refs, [])" now "activeSessionRef refs" "sessions snapshot"] assms
    by (simp add: reconnectEffect_def)
next
  case False
  with assms show ?thesis by (auto simp add: reconnectEffect_def)
qed

lemma settled_keeps_cooldown:
  "reconnectCooldownRef (connectSessionSettled sid succeeded refs) = reconnectCooldownRef refs"
  by (simp add: connectSessionSettled_def Let_def)

lemma sample_reconnect_settled:
  "connectSessionSettled ''s1'' succeeded
     \<lparr>activeSessionRef = None, reconnectTrackerRef = {''s1''},
      reconnectCooldownRef = [''s1'' \<mapsto> 1000]\<rparr>
   = \<lparr>activeSessionRef = None, reconnectTrackerRef = {},
      reconnectCooldownRef = [''s1'' \<mapsto> 1000]\<rparr>"
  by (simp add: connectSessionSettled_def Let_def)

text \<open>
  Once the cooldown has passed and the earlier attempt has settled, a session that is still
  eligible is attempted again.
\<close>

lemma reconnect_after_cooldown:
  "snd (reconnectEffect allReady 61000 (sampleSnapshot\<lparr>sessions := [sampleSession\<lparr>lastSeenAt := Some 60500\<rparr>]\<rparr>)
        \<lparr>activeSessionRef = None, reconnectTrackerRef = {},
         reconnectCooldownRef = [''s1'' \<mapsto> 1000]\<rparr>) = [''s1'']"
  by (simp add: reconnectEffect_def reconnectSession_def allReady_def sampleSnapshot_def
      sampleSession_def truthyStr_def shouldReconnect_def coolingDown_def
      RECONNECT_COOLDOWN_MS_def)

text \<open>
  C2 (amended).  When a run of the reconnection effect at a time \<open>t\<close> other than 0 calls
  \<^verbatim>\<open>connectSession\<close> for a session, then whatever happens next, in any order (the promise
  settles with success or with failure, the effects run again on any snapshots, an adoption
  fails), no run of the reconnection effect at a time \<open>now\<close> with \<open>now - t < 60000\<close> calls
  \<^verbatim>\<open>connectSession\<close> for that session again.  Settling, with success as with failure, leaves
  the session's cooldown stamp at \<open>t\<close>: a success does not clear it.
\<close>

theorem reconnect_cooldown_after_attempt:
  assumes "sid \<in> set (snd (reconnectEffect deps t snapshot refs))"
    and "t \<noteq> 0"
    and "list_all (withinCooldown t) evs"
  shows "sid \<notin> set (connectLog (fst (reconnectEffect deps t snapshot refs)) evs)
       \<and> reconnectCooldownRef
            (connectSessionSettled sid succeeded (fst (reconnectEffect deps t snapshot refs))) sid
          = Some t"
proof -
  have c: "reconnectCooldownRef (fst (reconnectEffect deps t snapshot refs)) sid = Some t"
    using assms(1) by (rule reconnectEffect_stamps)
  from connectLog_cooling[OF c assms(2,3)] c show ?thesis
    by (simp add: settled_keeps_cooldown)
qed

theorem reconnect_cooldown_after_attempt_witness:
  "''s1'' \<notin> set (connectLog (fst (reconnectEffect allReady 1000 sampleSnapshot newRefs))
      [ConnectSettled ''s1'' False, ReconnectRun allReady 30000 sampleSnapshot,
       ConnectSettled ''s1'' True, ReconnectRun allReady 60999 sampleSnapshot])"
proof -
  have h1: "''s1'' \<in> set (snd (reconnectEffect allReady 1000 sampleSnapshot newRefs))"
    by (simp add: sample_reconnect)
  have h2: "(1000 :: int) \<noteq> 0" by simp
  have h3: "list_all (withinCooldown 1000)
      [ConnectSettled ''s1'' False, ReconnectRun allReady 30000 sampleSnapshot,
       ConnectSettled ''s1'' True, ReconnectRun allReady 60999 sampleSnapshot]"
    by (simp add: RECONNECT_COOLDOWN_MS_def)
  from reconnect_cooldown_after_attempt[OF h1 h2 h3] show ?thesis by simp
qed

text \<open>
  C2 as first stated has a successful \<^verbatim>\<open>connectSession\<close> clear the cooldown, so that the
  next attempt may follow at once.  After an attempt at time 1000 that succeeds, the run at
  time 2000 on the same snapshot makes no attempt, though the session is eligible then (with
  an empty cooldown map the same run attempts it).  And the test
  \<^verbatim>\<open>lastAttempt && now - lastAttempt < RECONNECT_COOLDOWN_MS\<close> reads a stamp of 0 as no
  stamp: after an attempt issued when \<^verbatim>\<open>Date.now()\<close> is 0 that fails, the run at time 1
  attempts the session again.
\<close>

theorem reconnect_success_keeps_cooldown_counterexample:
  "reconnectEffect allReady 1000 sampleSnapshot newRefs
     = (\<lparr>activeSessionRef = None, reconnectTrackerRef = {''s1''},
         reconnectCooldownRef = [''s1'' \<mapsto> 1000]\<rparr>, [''s1''])
   \<and> connectSessionSettled ''s1'' True
        \<lparr>activeSessionRef = None, reconnectTrackerRef = {''s1''},
         reconnectCooldownRef = [''s1'' \<mapsto> 1000]\<rparr>
     = \<lparr>activeSessionRef = None, reconnectTrackerRef = {},
        reconnectCooldownRef = [''s1'' \<mapsto> 1000]\<rparr>
   \<and> snd (reconnectEffect allReady 2000 sampleSnapshot
        \<lparr>activeSessionRef = None, reconnectTrackerRef = {},
         reconnectCooldownRef = [''s1'' \<mapsto> 1000]\<rparr>) = []
   \<and> snd (reconnectEffect allReady 2000 sampleSnapshot
        \<lparr>activeSessionRef = None, reconnectTrackerRef = {},
         reconnectCooldownRef = Map.empty\<rparr>) = [''s1'']
   \<and> reconnectEffect allReady 0 sampleSnapshot newRefs
     = (\<lparr>activeSessionRef = None, reconnectTrackerRef = {''s1''},
         reconnectCooldownRef = [''s1'' \<mapsto> 0]\<rparr>, [''s1''])
   \<and> connectSessionSettled ''s1'' False
        \<lparr>activeSessionRef = None, reconnectTrackerRef = {''s1''},
         reconnectCooldownRef = [''s1'' \<mapsto> 0]\<rparr>
     = \<lparr>activeSessionRef = None, reconnectTrackerRef = {},
        reconnectCooldownRef = [''s1'' \<mapsto> 0]\<rparr>
   \<and> snd (reconnectEffect allReady 1 sampleSnapshot
        \<lparr>activeSessionRef = None, reconnectTrackerRef = {},
         reconnectCooldownRef = [''s1'' \<mapsto> 0]\<rparr>) = [''s1'']"
  by (simp add: reconnectEffect_def reconnectSession_def allReady_def sampleSnapshot_def
      sampleSession_def newRefs_def truthyStr_def shouldReconnect_def coolingDown_def
      RECONNECT_COOLDOWN_MS_def connectSessionSettled_def Let_def)

subsection \<open>Adoption: clearing the signer\<close>

text \<open>
  One run of the adoption effect with its dependencies ready, seen from the adoption ref: no
  call when the candidate's id is the id in the ref; one \<^verbatim>\<open>adoptSigner(null)\<close> when there is
  no candidate and the ref holds a non-empty id; one \<^verbatim>\<open>adoptSigner\<close> call for the candidate
  when its id differs from the ref.
\<close>

lemma adoptionEffect_one_run:
  assumes "hasModule deps \<and> hasNdk deps \<and> ready deps \<and> transportReady deps \<and> hasService deps
           \<and> hasSessionManager deps"
  shows "length (snd (adoptionEffect deps snapshot refs)) \<le> 1
     \<and> (adoptionCandidate snapshot = Some c \<and> activeSessionRef refs = Some (session_id c) \<longrightarrow>
          adoptionEffect deps snapshot refs = (refs, []))
     \<and> (adoptionCandidate snapshot = None \<and> activeSessionRef refs = Some cur \<and> cur \<noteq> [] \<longrightarrow>
          adoptionEffect deps snapshot refs = (refs\<lparr>activeSessionRef := None\<rparr>, [AdoptNull])
          \<and> adoptionEffect deps snapshot (refs\<lparr>activeSessionRef := None\<rparr>)
              = (refs\<lparr>activeSessionRef := None\<rparr>, []))
     \<and> (adoptionCandidate snapshot = Some c \<and> activeSessionRef refs \<noteq> Some (session_id c) \<longrightarrow>
          adoptionEffect deps snapshot refs
            = (refs\<lparr>activeSessionRef := Some (session_id c)\<rparr>, [AdoptSigner (session_id c)])
          \<and> adoptionEffect deps snapshot (refs\<lparr>activeSessionRef := Some (session_id c)\<rparr>)
              = (refs\<lparr>activeSessionRef := Some (session_id c)\<rparr>, []))"
proof -
  have 1: "length (snd (adoptionEffect deps snapshot refs)) \<le> 1"
    by (simp add: adoptionEffect_def split: option.splits)
  have 2: "adoptionCandidate snapshot = Some c \<and> activeSessionRef refs = Some (session_id c) \<longrightarrow>
          adoptionEffect deps snapshot refs = (refs, [])"
    by (simp add: adoptionEffect_def)
  have 3: "adoptionCandidate snapshot = None \<and> activeSessionRef refs = Some cur \<and> cur \<noteq> [] \<longrightarrow>
          adoptionEffect deps snapshot refs = (refs\<lparr>activeSessionRef := None\<rparr>, [AdoptNull])
          \<and> adoptionEffect deps snapshot (refs\<lparr>activeSessionRef := None\<rparr>)
              = (refs\<lparr>activeSessionRef := None\<rparr>, [])"
    using assms by (simp add: adoptionEffect_def truthyStr_def)
  have 4: "adoptionCandidate snapshot = Some c \<and> activeSessionRef refs \<noteq> Some (session_id c) \<longrightarrow>
          adoptionEffect deps snapshot refs
            = (refs\<lparr>activeSessionRef := Some (session_id c)\<rparr>, [AdoptSigner (session_id c)])
          \<and> adoptionEffect deps snapshot (refs\<lparr>activeSessionRef := Some (session_id c)\<rparr>)
              = (refs\<lparr>activeSessionRef := Some (session_id c)\<rparr>, [])"
    using assms by (auto simp add: adoptionEffect_def)
  from 1 2 3 4 show ?thesis by blast
qed


end
